theory Spec2Isabelle
  imports Main
begin

section \<open>Data model of the settings screen (src/pages/SettingsPage.tsx)\<close>

text \<open>
  \<open>PersonaType\<close> is a string enum of \<open>../types\<close>; the screen obtains its values from
  \<open>e.target.value\<close> and never inspects them, so a persona is a string here.
\<close>

type_synonym PersonaType = string

text \<open>The theme is the union type \<open>'light' | 'dark'\<close> (line 31).\<close>

datatype Theme = Light | Dark

text \<open>
  The members of the enum \<open>NotificationFrequency\<close> that the screen names: \<open>OFF\<close> and
  \<open>DAILY\<close> in the handlers, all five as the options of the select (lines 272-276).
\<close>

datatype NotificationFrequency = OFF | DAILY | EVERY_OTHER | THREE_TIMES_DAY | WEEKLY

text \<open>The modes of the legal modal set by the menu: \<open>'terms'\<close>, \<open>'privacy'\<close>, \<open>'support'\<close>.\<close>

datatype LegalMode = Terms | Privacy | Support

text \<open>
  The user profile, with the four fields the screen reads. \<open>city\<close> and
  \<open>notificationFrequency\<close> may be missing (the mount effect reads them with
  \<open>|| ''\<close> and \<open>|| NotificationFrequency.DAILY\<close>), hence the options. The record is
  extensible: whatever further fields a profile carries live in its \<open>more\<close> part, and the
  object spread \<open>{ ...profile, city: newCity }\<close> is the record update, which keeps them.
\<close>

record UserProfile =
  selectedPersona :: PersonaType
  city :: "string option"
  theme :: Theme
  notificationFrequency :: "NotificationFrequency option"

text \<open>
  The state variables of the component (its \<open>useState\<close> cells, lines 25-36). The cells
  \<open>city\<close> and \<open>theme\<close> are named \<open>cityState\<close> and \<open>themeState\<close>, since the profile has
  fields of the same names. \<open>notificationPerm\<close> holds a permission string such as
  \<open>'granted'\<close>.
\<close>

record View =
  selectedIds :: "string list"
  currentPersona :: PersonaType
  cityState :: string
  expandedCategories :: "string list"
  showProfileModal :: bool
  isTopExpanded :: bool
  themeState :: Theme
  notificationFreq :: NotificationFrequency
  notificationPerm :: string
  showMoreMenu :: bool
  legalMode :: "LegalMode option"

section \<open>The external collaborators\<close>

text \<open>
  The module \<open>../services/storageService\<close> is imported by the screen (line 3) and is not
  part of the sources at hand. Its nine functions are taken as parameters: a record of
  functions over the state \<open>'s\<close> of the store. \<open>toggleTheme\<close> returns the new theme and
  \<open>importUserData\<close> a success flag, as their uses in lines 50 and 125 show.
\<close>

record ('x, 's) storageService =
  getSelectedTopicIds :: "'s \<Rightarrow> string list"
  saveSelectedTopicIds :: "string list \<Rightarrow> 's \<Rightarrow> 's"
  getUserProfile :: "'s \<Rightarrow> 'x UserProfile_scheme"
  setPersona :: "PersonaType \<Rightarrow> 's \<Rightarrow> 's"
  saveUserProfile :: "'x UserProfile_scheme \<Rightarrow> 's \<Rightarrow> 's"
  toggleTheme :: "'s \<Rightarrow> Theme \<times> 's"
  exportUserData :: "'s \<Rightarrow> string"
  importUserData :: "string \<Rightarrow> 's \<Rightarrow> bool \<times> 's"
  hardResetApp :: "'s \<Rightarrow> 's"

text \<open>
  The module \<open>../services/notificationService\<close> (line 6), likewise a parameter, over the
  state \<open>'n\<close> of the platform. \<open>requestNotificationPermission\<close> is the awaited request: it
  yields the flag \<open>granted\<close> and the platform state after the user has answered.
\<close>

record 'n notificationService =
  isNotificationSupported :: "'n \<Rightarrow> bool"
  getNotificationPermission :: "'n \<Rightarrow> string"
  requestNotificationPermission :: "'n \<Rightarrow> bool \<times> 'n"

text \<open>
  The texts of the three \<open>alert\<close> calls (lines 79, 86 and 127): the browser does not
  support notifications; notifications are disabled in the system; data restored.
\<close>

datatype AlertMessage = NotificationsUnsupported | NotificationsDisabled | DataRestored

text \<open>
  Every call that leaves the component is recorded, in order: the calls of the two
  services with the values handed over, the dialogs, the reload, the download and the
  callback \<open>onThemeChange\<close>. \<open>Download name content\<close> is the click on the link whose
  \<open>download\<close> attribute is \<open>name\<close> and whose blob holds \<open>content\<close>.
\<close>

datatype 'p event =
    CallGetSelectedTopicIds
  | CallSaveSelectedTopicIds "string list"
  | CallGetUserProfile
  | CallSetPersona PersonaType
  | CallSaveUserProfile 'p
  | CallToggleTheme
  | CallExportUserData
  | CallImportUserData string
  | CallHardResetApp
  | CallIsNotificationSupported
  | CallGetNotificationPermission
  | CallRequestNotificationPermission
  | Alert AlertMessage
  | Confirm
  | Reload
  | Download string string
  | OnThemeChange

text \<open>
  The world a handler runs in: the component's state, the store, the platform, and the
  calls made so far. The calls are those of the handlers and of the mount effect;
  rendering is not modelled (each render evaluates the initial-value expression
  \<open>getNotificationPermission()\<close> of line 33, a read whose result only the first render
  uses).
\<close>

record ('p, 's, 'n) world =
  ui :: View
  storage :: 's
  platform :: 'n
  calls :: "'p event list"

definition emit :: "'p event \<Rightarrow> ('p, 's, 'n) world \<Rightarrow> ('p, 's, 'n) world" where
  "emit e w = w\<lparr>calls := calls w @ [e]\<rparr>"

section \<open>The handlers\<close>

subsection \<open>Mount effect (lines 39-47)\<close>

text \<open>
  The profile is read first, then the selected ids. A missing \<open>city\<close> shows as the empty
  string and a missing \<open>notificationFrequency\<close> as \<open>DAILY\<close>.
\<close>

definition mountEffect ::
  "('x, 's) storageService \<Rightarrow> ('x UserProfile_scheme, 's, 'n) world
     \<Rightarrow> ('x UserProfile_scheme, 's, 'n) world" where
  "mountEffect svc w =
     (let profile = getUserProfile svc (storage w);
          w1 = emit CallGetUserProfile w;
          ids = getSelectedTopicIds svc (storage w1);
          w2 = emit CallGetSelectedTopicIds w1
      in w2\<lparr>ui := (ui w2)\<lparr>
            selectedIds := ids,
            currentPersona := selectedPersona profile,
            cityState := (case city profile of None \<Rightarrow> [] | Some c \<Rightarrow> c),
            themeState := theme profile,
            notificationFreq :=
              (case notificationFrequency profile of None \<Rightarrow> DAILY | Some f \<Rightarrow> f),
            expandedCategories := []\<rparr>\<rparr>)"

subsection \<open>Theme toggle (lines 49-53)\<close>

text \<open>\<open>hasOnThemeChange\<close> says whether the optional prop \<open>onThemeChange\<close> was passed.\<close>

definition handleToggleTheme ::
  "('x, 's) storageService \<Rightarrow> bool \<Rightarrow> ('x UserProfile_scheme, 's, 'n) world
     \<Rightarrow> ('x UserProfile_scheme, 's, 'n) world" where
  "handleToggleTheme svc hasOnThemeChange w =
     (let (newTheme, st) = toggleTheme svc (storage w);
          w1 = emit CallToggleTheme (w\<lparr>storage := st\<rparr>);
          w2 = w1\<lparr>ui := (ui w1)\<lparr>themeState := newTheme\<rparr>\<rparr>
      in if hasOnThemeChange then emit OnThemeChange w2 else w2)"

subsection \<open>Topic selection (lines 56-60)\<close>

definition toggleTopic ::
  "('x, 's) storageService \<Rightarrow> string \<Rightarrow> ('x UserProfile_scheme, 's, 'n) world
     \<Rightarrow> ('x UserProfile_scheme, 's, 'n) world" where
  "toggleTopic svc tid w =
     (let newIds = [tid];
          w1 = w\<lparr>ui := (ui w)\<lparr>selectedIds := newIds\<rparr>\<rparr>
      in emit (CallSaveSelectedTopicIds newIds)
           (w1\<lparr>storage := saveSelectedTopicIds svc newIds (storage w1)\<rparr>))"

subsection \<open>Persona and city (lines 62-73)\<close>

definition handlePersonaChange ::
  "('x, 's) storageService \<Rightarrow> PersonaType \<Rightarrow> ('x UserProfile_scheme, 's, 'n) world
     \<Rightarrow> ('x UserProfile_scheme, 's, 'n) world" where
  "handlePersonaChange svc newPersona w =
     (let w1 = w\<lparr>ui := (ui w)\<lparr>currentPersona := newPersona\<rparr>\<rparr>
      in emit (CallSetPersona newPersona)
           (w1\<lparr>storage := setPersona svc newPersona (storage w1)\<rparr>))"

definition handleCityChange ::
  "('x, 's) storageService \<Rightarrow> string \<Rightarrow> ('x UserProfile_scheme, 's, 'n) world
     \<Rightarrow> ('x UserProfile_scheme, 's, 'n) world" where
  "handleCityChange svc newCity w =
     (let w1 = w\<lparr>ui := (ui w)\<lparr>cityState := newCity\<rparr>\<rparr>;
          profile = getUserProfile svc (storage w1);
          w2 = emit CallGetUserProfile w1;
          written = profile\<lparr>city := Some newCity\<rparr>
      in emit (CallSaveUserProfile written)
           (w2\<lparr>storage := saveUserProfile svc written (storage w2)\<rparr>))"

subsection \<open>Notification frequency (lines 75-94)\<close>

text \<open>
  Lines 77-90, the part of the handler that may return early. The flag is \<open>False\<close> where
  the source returns, \<open>True\<close> where control reaches line 91.
\<close>

definition notificationGate ::
  "'n notificationService \<Rightarrow> NotificationFrequency \<Rightarrow> ('p, 's, 'n) world
     \<Rightarrow> bool \<times> ('p, 's, 'n) world" where
  "notificationGate ns freq w =
     (if freq \<noteq> OFF then
        (let supported = isNotificationSupported ns (platform w);
             w1 = emit CallIsNotificationSupported w
         in if \<not> supported then (False, emit (Alert NotificationsUnsupported) w1)
            else
              (let perm = getNotificationPermission ns (platform w1);
                   w2 = emit CallGetNotificationPermission w1
               in if perm \<noteq> ''granted'' then
                    (let (granted, pf) = requestNotificationPermission ns (platform w2);
                         w3 = emit CallRequestNotificationPermission (w2\<lparr>platform := pf\<rparr>);
                         perm' = getNotificationPermission ns (platform w3);
                         w4 = emit CallGetNotificationPermission w3;
                         w5 = w4\<lparr>ui := (ui w4)\<lparr>notificationPerm := perm'\<rparr>\<rparr>
                     in if \<not> granted then (False, emit (Alert NotificationsDisabled) w5)
                        else (True, w5))
                  else (True, w2)))
      else (True, w))"

definition handleNotificationChange ::
  "('x, 's) storageService \<Rightarrow> 'n notificationService \<Rightarrow> NotificationFrequency
     \<Rightarrow> ('x UserProfile_scheme, 's, 'n) world \<Rightarrow> ('x UserProfile_scheme, 's, 'n) world" where
  "handleNotificationChange svc ns freq w =
     (case notificationGate ns freq w of
        (False, w') \<Rightarrow> w'
      | (True, w') \<Rightarrow>
          (let w1 = w'\<lparr>ui := (ui w')\<lparr>notificationFreq := freq\<rparr>\<rparr>;
               profile = getUserProfile svc (storage w1);
               w2 = emit CallGetUserProfile w1;
               written = profile\<lparr>notificationFrequency := Some freq\<rparr>
           in emit (CallSaveUserProfile written)
                (w2\<lparr>storage := saveUserProfile svc written (storage w2)\<rparr>)))"

subsection \<open>Data management (lines 96-133)\<close>

text \<open>\<open>confirmed\<close> is the answer the user gives to the \<open>confirm\<close> dialog.\<close>

definition handleHardReset ::
  "('x, 's) storageService \<Rightarrow> bool \<Rightarrow> ('x UserProfile_scheme, 's, 'n) world
     \<Rightarrow> ('x UserProfile_scheme, 's, 'n) world" where
  "handleHardReset svc confirmed w =
     (let w1 = emit Confirm w
      in if confirmed
         then emit CallHardResetApp (w1\<lparr>storage := hardResetApp svc (storage w1)\<rparr>)
         else w1)"

text \<open>
  \<open>isoDate\<close> is \<open>new Date().toISOString().split('T')[0]\<close>, the date of the click.
\<close>

definition handleExportData ::
  "('x, 's) storageService \<Rightarrow> string \<Rightarrow> ('x UserProfile_scheme, 's, 'n) world
     \<Rightarrow> ('x UserProfile_scheme, 's, 'n) world" where
  "handleExportData svc isoDate w =
     (let dataStr = exportUserData svc (storage w);
          w1 = emit CallExportUserData w
      in emit (Download (''ai_digest_backup_'' @ isoDate @ ''.json'') dataStr) w1)"

text \<open>
  \<open>files\<close> holds the text of each file of \<open>e.target.files\<close>, as \<open>readAsText\<close> delivers it
  to \<open>onload\<close>; the handler looks at the first only. An empty text is falsy, so the test
  \<open>if (content)\<close> of line 124 skips it.
\<close>

definition handleFileChange ::
  "('x, 's) storageService \<Rightarrow> string list \<Rightarrow> ('x UserProfile_scheme, 's, 'n) world
     \<Rightarrow> ('x UserProfile_scheme, 's, 'n) world" where
  "handleFileChange svc files w =
     (case files of
        [] \<Rightarrow> w
      | content # _ \<Rightarrow>
          if content \<noteq> [] then
            (let (success, st) = importUserData svc content (storage w);
                 w1 = emit (CallImportUserData content) (w\<lparr>storage := st\<rparr>)
             in if success then emit Reload (emit (Alert DataRestored) w1) else w1)
          else w)"

subsection \<open>Initial state and sequences of operations\<close>

text \<open>
  The initial values of the state variables (lines 25-36). \<open>PersonaType.DEFAULT\<close> and the
  result of the call \<open>getNotificationPermission()\<close> in line 33 are the two parameters.
\<close>

definition initialView :: "PersonaType \<Rightarrow> string \<Rightarrow> View" where
  "initialView personaDefault perm =
     \<lparr>selectedIds = [], currentPersona = personaDefault, cityState = [],
      expandedCategories = [], showProfileModal = False, isTopExpanded = True,
      themeState = Light, notificationFreq = DAILY, notificationPerm = perm,
      showMoreMenu = False, legalMode = None\<rparr>"

text \<open>
  The operations the invariant on the selection ranges over: the mount-time load, a
  topic selection, the three profile edits and the theme toggle, each with the value the
  user enters.
\<close>

datatype operation =
    MountLoad
  | SelectTopic string
  | EditPersona PersonaType
  | EditCity string
  | EditNotification NotificationFrequency
  | ThemeToggle

fun perform ::
  "('x, 's) storageService \<Rightarrow> 'n notificationService \<Rightarrow> bool \<Rightarrow> operation
     \<Rightarrow> ('x UserProfile_scheme, 's, 'n) world \<Rightarrow> ('x UserProfile_scheme, 's, 'n) world" where
  "perform svc ns cb MountLoad w = mountEffect svc w"
| "perform svc ns cb (SelectTopic tid) w = toggleTopic svc tid w"
| "perform svc ns cb (EditPersona p) w = handlePersonaChange svc p w"
| "perform svc ns cb (EditCity c) w = handleCityChange svc c w"
| "perform svc ns cb (EditNotification f) w = handleNotificationChange svc ns f w"
| "perform svc ns cb ThemeToggle w = handleToggleTheme svc cb w"

fun performAll ::
  "('x, 's) storageService \<Rightarrow> 'n notificationService \<Rightarrow> bool \<Rightarrow> operation list
     \<Rightarrow> ('x UserProfile_scheme, 's, 'n) world \<Rightarrow> ('x UserProfile_scheme, 's, 'n) world" where
  "performAll svc ns cb [] w = w"
| "performAll svc ns cb (x # xs) w = performAll svc ns cb xs (perform svc ns cb x w)"

section \<open>What the specification says of the collaborators\<close>

text \<open>
  Modelled from the spec: the contract of the storage service
  (\<open>../services/storageService\<close>, not among the sources) for the selected topic ids. The
  specification lists "get/save selected topic ids" beside "get/save user profile; set
  persona; toggle theme" as separate items of the store: reading the ids returns what was
  saved last, a save replaces the one before it, and the profile calls leave the ids
  alone.
\<close>

definition storesTopicIds :: "('x, 's) storageService \<Rightarrow> bool" where
  "storesTopicIds svc \<longleftrightarrow>
     (\<forall>ids s. getSelectedTopicIds svc (saveSelectedTopicIds svc ids s) = ids)"

definition overwritesTopicIds :: "('x, 's) storageService \<Rightarrow> bool" where
  "overwritesTopicIds svc \<longleftrightarrow>
     (\<forall>a b s. saveSelectedTopicIds svc a (saveSelectedTopicIds svc b s)
                = saveSelectedTopicIds svc a s)"

definition profileCallsKeepTopicIds :: "('x, 's) storageService \<Rightarrow> bool" where
  "profileCallsKeepTopicIds svc \<longleftrightarrow>
     (\<forall>p s. getSelectedTopicIds svc (saveUserProfile svc p s) = getSelectedTopicIds svc s)
   \<and> (\<forall>p s. getSelectedTopicIds svc (setPersona svc p s) = getSelectedTopicIds svc s)
   \<and> (\<forall>s. getSelectedTopicIds svc (snd (toggleTheme svc s)) = getSelectedTopicIds svc s)"

text \<open>
  Modelled from the spec: the store behind \<open>../services/storageService\<close> (not among the
  sources). It holds what the specification's data model names: the selected topic ids
  and the user profile.
\<close>

record 'x Store =
  topicIds :: "string list"
  profile :: "'x UserProfile_scheme"

text \<open>
  Modelled from the spec: the "initial default state" of the store, in which nothing is
  selected and the profile is the default profile \<open>d\<close>. The specification does not give
  the default profile's values, so \<open>d\<close> is a parameter.
\<close>

definition initialStore :: "'x UserProfile_scheme \<Rightarrow> 'x Store" where
  "initialStore d = \<lparr>topicIds = [], profile = d\<rparr>"

text \<open>
  Modelled from the spec: the functions of \<open>../services/storageService\<close> (not among the
  sources) on that store, after the list of the specification's section 6: "get/save
  selected topic ids; get/save user profile; set persona; toggle theme (returns new
  theme); export all data as text; import data from text (returns success boolean); hard
  reset (irreversible wipe)", the wipe leaving "the store in its initial default state".
  The specification fixes no format for the exported text, so the export and the import
  routine are the parameters \<open>ex\<close> and \<open>im\<close>.
\<close>

definition specStorage ::
  "'x UserProfile_scheme \<Rightarrow> ('x Store \<Rightarrow> string) \<Rightarrow> (string \<Rightarrow> 'x Store \<Rightarrow> bool \<times> 'x Store)
     \<Rightarrow> ('x, 'x Store) storageService" where
  "specStorage d ex im =
     \<lparr>getSelectedTopicIds = topicIds,
      saveSelectedTopicIds = (\<lambda>ids s. s\<lparr>topicIds := ids\<rparr>),
      getUserProfile = profile,
      setPersona = (\<lambda>p s. s\<lparr>profile := (profile s)\<lparr>selectedPersona := p\<rparr>\<rparr>),
      saveUserProfile = (\<lambda>p s. s\<lparr>profile := p\<rparr>),
      toggleTheme =
        (\<lambda>s. let t = (if theme (profile s) = Dark then Light else Dark)
             in (t, s\<lparr>profile := (profile s)\<lparr>theme := t\<rparr>\<rparr>)),
      exportUserData = ex,
      importUserData = im,
      hardResetApp = (\<lambda>s. initialStore d)\<rparr>"

text \<open>
  Modelled from the spec: a platform for \<open>../services/notificationService\<close> (not among
  the sources), after "query support, query current permission, request permission
  (asynchronous, resolves to granted boolean)". \<open>userGrants\<close> is the answer the user gives
  to the permission prompt.
\<close>

record Platform =
  supported :: bool
  permission :: string
  userGrants :: bool

definition specNotifications :: "Platform notificationService" where
  "specNotifications =
     \<lparr>isNotificationSupported = supported,
      getNotificationPermission = permission,
      requestNotificationPermission =
        (\<lambda>n. (userGrants n,
               n\<lparr>permission := (if userGrants n then ''granted'' else ''denied'')\<rparr>))\<rparr>"

section \<open>The read-modify-write pattern, in the specification's words\<close>

text \<open>
  "Each edit reads the current full profile, overlays the single changed field, and
  writes the full profile back": between the worlds \<open>w\<close> and \<open>w'\<close> the calls made are one
  \<open>getUserProfile\<close> and one \<open>saveUserProfile\<close>, the profile written is the profile read
  with \<open>overlay\<close> applied, and the store is the result of that save.
\<close>

definition readModifyWrite ::
  "('x, 's) storageService \<Rightarrow> ('x UserProfile_scheme \<Rightarrow> 'x UserProfile_scheme)
     \<Rightarrow> ('x UserProfile_scheme, 's, 'n) world \<Rightarrow> ('x UserProfile_scheme, 's, 'n) world
     \<Rightarrow> bool" where
  "readModifyWrite svc overlay w w' =
     (let p = getUserProfile svc (storage w)
      in calls w' = calls w @ [CallGetUserProfile, CallSaveUserProfile (overlay p)]
         \<and> storage w' = saveUserProfile svc (overlay p) (storage w))"

section \<open>Concrete worlds\<close>

text \<open>
  A freshly installed application on a platform that supports notifications and has not
  been asked for the permission yet: nothing selected, the default profile, no call
  made. \<open>refuses\<close> and \<open>grants\<close> differ in the answer the user will give to the prompt.
\<close>

definition profile0 :: UserProfile where
  "profile0 = \<lparr>selectedPersona = ''default'', city = None, theme = Light,
                notificationFrequency = None\<rparr>"

text \<open>
  The export and the import of these worlds are stand-ins, there to make the service
  complete: the export yields the text \<open>{}\<close>, and the import accepts that text alone and
  leaves the store as it is.
\<close>

definition storage0 :: "(unit, unit Store) storageService" where
  "storage0 = specStorage profile0 (\<lambda>s. ''{}'') (\<lambda>c s. (c = ''{}'', s))"

definition fresh :: "bool \<Rightarrow> bool \<Rightarrow> (UserProfile, unit Store, Platform) world" where
  "fresh hasSupport answer =
     \<lparr>ui = initialView ''default'' ''default'',
      storage = initialStore profile0,
      platform = \<lparr>supported = hasSupport, permission = ''default'', userGrants = answer\<rparr>,
      calls = []\<rparr>"

text \<open>
  The component at its creation over a store that already holds the ids \<open>ids\<close> and a
  profile with a city, as a later launch of the application finds it: the state
  variables have their initial values, the selection in memory is empty.
\<close>

definition stocked :: "string list \<Rightarrow> (UserProfile, unit Store, Platform) world" where
  "stocked ids =
     \<lparr>ui = initialView ''default'' ''default'',
      storage = \<lparr>topicIds = ids, profile = profile0\<lparr>city := Some ''Nitra''\<rparr>\<rparr>,
      platform = \<lparr>supported = True, permission = ''default'', userGrants = True\<rparr>,
      calls = []\<rparr>"

section \<open>What each handler does\<close>

text \<open>
  The asynchronous handler of the notification select is taken as one step: nothing else
  runs between its request for the permission and its continuation.
\<close>

lemma emit_simps [simp]:
  "ui (emit e w) = ui w"
  "storage (emit e w) = storage w"
  "platform (emit e w) = platform w"
  "calls (emit e w) = calls w @ [e]"
  by (simp_all add: emit_def)

lemma toggleTopic_effect:
  "toggleTopic svc tid w =
     w\<lparr>ui := (ui w)\<lparr>selectedIds := [tid]\<rparr>,
       storage := saveSelectedTopicIds svc [tid] (storage w),
       calls := calls w @ [CallSaveSelectedTopicIds [tid]]\<rparr>"
  by (simp add: toggleTopic_def emit_def Let_def)

lemma handlePersonaChange_effect:
  "handlePersonaChange svc p w =
     w\<lparr>ui := (ui w)\<lparr>currentPersona := p\<rparr>,
       storage := setPersona svc p (storage w),
       calls := calls w @ [CallSetPersona p]\<rparr>"
  by (simp add: handlePersonaChange_def emit_def Let_def)

lemma handleCityChange_effect:
  "handleCityChange svc c w =
     w\<lparr>ui := (ui w)\<lparr>cityState := c\<rparr>,
       storage := saveUserProfile svc ((getUserProfile svc (storage w))\<lparr>city := Some c\<rparr>)
                    (storage w),
       calls := calls w @ [CallGetUserProfile,
          CallSaveUserProfile ((getUserProfile svc (storage w))\<lparr>city := Some c\<rparr>)]\<rparr>"
  by (simp add: handleCityChange_def emit_def Let_def)



lemma notificationGate_frame:
  "storage (snd (notificationGate ns freq w)) = storage w"
  "selectedIds (ui (snd (notificationGate ns freq w))) = selectedIds (ui w)"
  "notificationFreq (ui (snd (notificationGate ns freq w))) = notificationFreq (ui w)"
  by (simp_all add: notificationGate_def Let_def split: prod.splits)

lemma notificationGate_off:
  "notificationGate ns OFF w = (True, w)"
  by (simp add: notificationGate_def)

lemma notificationGate_unsupported:
  "freq \<noteq> OFF \<Longrightarrow> \<not> isNotificationSupported ns (platform w) \<Longrightarrow>
   notificationGate ns freq w =
     (False, w\<lparr>calls := calls w @ [CallIsNotificationSupported, Alert NotificationsUnsupported]\<rparr>)"
  by (simp add: notificationGate_def emit_def Let_def)

lemma notificationGate_asks:
  "freq \<noteq> OFF \<Longrightarrow> isNotificationSupported ns (platform w) \<Longrightarrow>
   getNotificationPermission ns (platform w) \<noteq> ''granted'' \<Longrightarrow>
   notificationGate ns freq w =
     (fst (requestNotificationPermission ns (platform w)),
      w\<lparr>ui := (ui w)\<lparr>notificationPerm :=
              getNotificationPermission ns (snd (requestNotificationPermission ns (platform w)))\<rparr>,
        platform := snd (requestNotificationPermission ns (platform w)),
        calls := calls w @
          [CallIsNotificationSupported, CallGetNotificationPermission,
           CallRequestNotificationPermission, CallGetNotificationPermission]
          @ (if fst (requestNotificationPermission ns (platform w)) then []
             else [Alert NotificationsDisabled])\<rparr>)"
  by (simp add: notificationGate_def emit_def Let_def split: prod.splits)

text \<open>A permission that is already granted lets the change through without a request.\<close>

lemma notificationGate_granted_before:
  "freq \<noteq> OFF \<Longrightarrow> isNotificationSupported ns (platform w) \<Longrightarrow>
   getNotificationPermission ns (platform w) = ''granted'' \<Longrightarrow>
   notificationGate ns freq w =
     (True, w\<lparr>calls := calls w @ [CallIsNotificationSupported, CallGetNotificationPermission]\<rparr>)"
  by (simp add: notificationGate_def emit_def Let_def)

lemma handleNotificationChange_rejected:
  "\<not> fst (notificationGate ns freq w) \<Longrightarrow>
   handleNotificationChange svc ns freq w = snd (notificationGate ns freq w)"
  by (cases "notificationGate ns freq w") (simp add: handleNotificationChange_def)

lemma handleNotificationChange_accepted:
  "fst (notificationGate ns freq w) \<Longrightarrow>
   handleNotificationChange svc ns freq w =
     (snd (notificationGate ns freq w))
       \<lparr>ui := (ui (snd (notificationGate ns freq w)))\<lparr>notificationFreq := freq\<rparr>,
        storage := saveUserProfile svc
           ((getUserProfile svc (storage w))\<lparr>notificationFrequency := Some freq\<rparr>) (storage w),
        calls := calls (snd (notificationGate ns freq w)) @
           [CallGetUserProfile,
            CallSaveUserProfile
              ((getUserProfile svc (storage w))\<lparr>notificationFrequency := Some freq\<rparr>)]\<rparr>"
  using notificationGate_frame(1)[of ns freq w]
  by (cases "notificationGate ns freq w")
     (simp add: handleNotificationChange_def emit_def Let_def)



lemma handleHardReset_effect:
  "handleHardReset svc False w = w\<lparr>calls := calls w @ [Confirm]\<rparr>"
  "handleHardReset svc True w =
     w\<lparr>storage := hardResetApp svc (storage w), calls := calls w @ [Confirm, CallHardResetApp]\<rparr>"
  by (simp_all add: handleHardReset_def emit_def Let_def)

lemma handleExportData_effect:
  "handleExportData svc isoDate w =
     w\<lparr>calls := calls w @ [CallExportUserData,
        Download (''ai_digest_backup_'' @ isoDate @ ''.json'') (exportUserData svc (storage w))]\<rparr>"
  by (simp add: handleExportData_def emit_def Let_def)

lemma handleFileChange_effect:
  "handleFileChange svc [] w = w"
  "handleFileChange svc ([] # rest) w = w"
  "content \<noteq> [] \<Longrightarrow> handleFileChange svc (content # rest) w =
     w\<lparr>storage := snd (importUserData svc content (storage w)),
       calls := calls w @
         (if fst (importUserData svc content (storage w))
          then [CallImportUserData content, Alert DataRestored, Reload]
          else [CallImportUserData content])\<rparr>"
  by (simp_all add: handleFileChange_def emit_def Let_def split: prod.splits)

subsection \<open>The store and the platform of the specification\<close>

lemma specStorage_simps:
  "getSelectedTopicIds (specStorage d ex im) = topicIds"
  "saveSelectedTopicIds (specStorage d ex im) = (\<lambda>ids s. s\<lparr>topicIds := ids\<rparr>)"
  "getUserProfile (specStorage d ex im) = profile"
  "setPersona (specStorage d ex im) = (\<lambda>p s. s\<lparr>profile := (profile s)\<lparr>selectedPersona := p\<rparr>\<rparr>)"
  "saveUserProfile (specStorage d ex im) = (\<lambda>p s. s\<lparr>profile := p\<rparr>)"
  "toggleTheme (specStorage d ex im) =
     (\<lambda>s. let t = (if theme (profile s) = Dark then Light else Dark)
          in (t, s\<lparr>profile := (profile s)\<lparr>theme := t\<rparr>\<rparr>))"
  "exportUserData (specStorage d ex im) = ex"
  "importUserData (specStorage d ex im) = im"
  "hardResetApp (specStorage d ex im) = (\<lambda>s. initialStore d)"
  by (simp_all add: specStorage_def)

lemma specStorage_contract:
  "storesTopicIds (specStorage d ex im)"
  "overwritesTopicIds (specStorage d ex im)"
  "profileCallsKeepTopicIds (specStorage d ex im)"
  by (simp_all add: storesTopicIds_def overwritesTopicIds_def profileCallsKeepTopicIds_def
        specStorage_simps Let_def)

lemma specNotifications_simps:
  "isNotificationSupported specNotifications = supported"
  "getNotificationPermission specNotifications = permission"
  "requestNotificationPermission specNotifications =
     (\<lambda>n. (userGrants n, n\<lparr>permission := (if userGrants n then ''granted'' else ''denied'')\<rparr>))"
  by (simp_all add: specNotifications_def)

lemma fresh_simps:
  "ui (fresh a b) = initialView ''default'' ''default''"
  "storage (fresh a b) = initialStore profile0"
  "platform (fresh a b) = \<lparr>supported = a, permission = ''default'', userGrants = b\<rparr>"
  "calls (fresh a b) = []"
  by (simp_all add: fresh_def)

lemma stocked_simps:
  "ui (stocked ids) = initialView ''default'' ''default''"
  "storage (stocked ids) = \<lparr>topicIds = ids, profile = profile0\<lparr>city := Some ''Nitra''\<rparr>\<rparr>"
  "platform (stocked ids) = \<lparr>supported = True, permission = ''default'', userGrants = True\<rparr>"
  "calls (stocked ids) = []"
  by (simp_all add: stocked_def)

section \<open>Topic selection\<close>

text \<open>
  C1. For every topic id, \<open>toggleTopic\<close> replaces the selection, whatever it was, with
  the one-element list of that id, and hands exactly that list to the store's
  \<open>saveSelectedTopicIds\<close> within the same call: the only call made is that save, the store
  after the handler is the store's own result for it, and the value written equals the
  selection in memory. Selecting \<open>b\<close> after \<open>a\<close> leaves the selection \<open>[b]\<close>, and \<open>[b]\<close> is the
  value written last.
\<close>

theorem toggleTopic_singleton_persisted:
  fixes svc :: "('x, 's) storageService" and w :: "('x UserProfile_scheme, 's, 'n) world"
  shows "selectedIds (ui (toggleTopic svc tid w)) = [tid]
    \<and> ui (toggleTopic svc tid w) = (ui w)\<lparr>selectedIds := [tid]\<rparr>
    \<and> storage (toggleTopic svc tid w) = saveSelectedTopicIds svc [tid] (storage w)
    \<and> calls (toggleTopic svc tid w)
        = calls w @ [CallSaveSelectedTopicIds (selectedIds (ui (toggleTopic svc tid w)))]
    \<and> platform (toggleTopic svc tid w) = platform w
    \<and> selectedIds (ui (toggleTopic svc b (toggleTopic svc a w))) = [b]
    \<and> set (selectedIds (ui (toggleTopic svc b (toggleTopic svc a w)))) = {b}
    \<and> last (calls (toggleTopic svc b (toggleTopic svc a w))) = CallSaveSelectedTopicIds [b]"
  by (simp add: toggleTopic_effect)

text \<open>
  C9. Selecting the same topic twice in a row: each of the two selections sets the
  selection to \<open>[tid]\<close> and saves \<open>[tid]\<close>, so the calls made are two saves of \<open>[tid]\<close>
  and the store is the result of saving \<open>[tid]\<close> twice. The component's state after the
  second selection is the state after the first, with the selection \<open>[tid]\<close>. For every
  storage service that returns the ids saved last and in which a save replaces the save
  before it, the store after the second selection is the store after the first, and it
  holds \<open>[tid]\<close>, the selection in memory.
\<close>

theorem toggleTopic_idempotent:
  fixes svc :: "('x, 's) storageService" and w :: "('x UserProfile_scheme, 's, 'n) world"
  assumes "storesTopicIds svc" and "overwritesTopicIds svc"
  shows "selectedIds (ui (toggleTopic svc tid (toggleTopic svc tid w))) = [tid]
    \<and> selectedIds (ui (toggleTopic svc tid w)) = [tid]
    \<and> ui (toggleTopic svc tid (toggleTopic svc tid w)) = ui (toggleTopic svc tid w)
    \<and> ui (toggleTopic svc tid (toggleTopic svc tid w)) = (ui w)\<lparr>selectedIds := [tid]\<rparr>
    \<and> calls (toggleTopic svc tid (toggleTopic svc tid w))
        = calls w @ [CallSaveSelectedTopicIds [tid], CallSaveSelectedTopicIds [tid]]
    \<and> storage (toggleTopic svc tid (toggleTopic svc tid w))
        = saveSelectedTopicIds svc [tid] (saveSelectedTopicIds svc [tid] (storage w))
    \<and> storage (toggleTopic svc tid (toggleTopic svc tid w)) = storage (toggleTopic svc tid w)
    \<and> storage (toggleTopic svc tid w) = saveSelectedTopicIds svc [tid] (storage w)
    \<and> getSelectedTopicIds svc (storage (toggleTopic svc tid (toggleTopic svc tid w))) = [tid]
    \<and> getSelectedTopicIds svc (storage (toggleTopic svc tid w)) = [tid]
    \<and> getSelectedTopicIds svc (storage (toggleTopic svc tid (toggleTopic svc tid w)))
        = selectedIds (ui (toggleTopic svc tid (toggleTopic svc tid w)))
    \<and> platform (toggleTopic svc tid (toggleTopic svc tid w)) = platform w"
proof -
  have twice: "saveSelectedTopicIds svc [tid] (saveSelectedTopicIds svc [tid] (storage w))
      = saveSelectedTopicIds svc [tid] (storage w)"
    using assms(2) by (simp add: overwritesTopicIds_def)
  have reads: "getSelectedTopicIds svc (saveSelectedTopicIds svc [tid] (storage w)) = [tid]"
    using assms(1) by (simp add: storesTopicIds_def)
  show ?thesis
    by (simp add: toggleTopic_effect twice reads)
qed

text \<open>
  An instance: a launch over a store that holds \<open>politics\<close>, the mount load, then
  \<open>science\<close> selected twice. Memory and store hold \<open>politics\<close> before and \<open>science\<close> after
  either selection.
\<close>

theorem toggleTopic_idempotent_witness:
  "storesTopicIds storage0 \<and> overwritesTopicIds storage0
   \<and> selectedIds (ui (mountEffect storage0 (stocked [''politics'']))) = [''politics'']
   \<and> topicIds (storage (mountEffect storage0 (stocked [''politics'']))) = [''politics'']
   \<and> selectedIds (ui (toggleTopic storage0 ''science''
        (toggleTopic storage0 ''science'' (mountEffect storage0 (stocked [''politics'']))))) = [''science'']
   \<and> ui (toggleTopic storage0 ''science''
        (toggleTopic storage0 ''science'' (mountEffect storage0 (stocked [''politics'']))))
       = ui (toggleTopic storage0 ''science'' (mountEffect storage0 (stocked [''politics''])))
   \<and> storage (toggleTopic storage0 ''science''
        (toggleTopic storage0 ''science'' (mountEffect storage0 (stocked [''politics'']))))
       = storage (toggleTopic storage0 ''science'' (mountEffect storage0 (stocked [''politics''])))
   \<and> topicIds (storage (toggleTopic storage0 ''science''
        (toggleTopic storage0 ''science'' (mountEffect storage0 (stocked [''politics''])))))
       = [''science'']
   \<and> calls (toggleTopic storage0 ''science''
        (toggleTopic storage0 ''science'' (mountEffect storage0 (stocked [''politics'']))))
       = [CallGetUserProfile, CallGetSelectedTopicIds,
          CallSaveSelectedTopicIds [''science''], CallSaveSelectedTopicIds [''science'']]"
proof -
  have c: "storesTopicIds storage0" "overwritesTopicIds storage0"
    by (simp_all add: storage0_def specStorage_contract)
  have g: "getSelectedTopicIds storage0 = topicIds"
    by (simp add: storage0_def specStorage_simps)
  have m: "selectedIds (ui (mountEffect storage0 (stocked [''politics'']))) = [''politics'']"
      "topicIds (storage (mountEffect storage0 (stocked [''politics'']))) = [''politics'']"
      "calls (mountEffect storage0 (stocked [''politics'']))
         = [CallGetUserProfile, CallGetSelectedTopicIds]"
    by (simp_all add: mountEffect_def Let_def g stocked_simps)
  note t = toggleTopic_idempotent
      [OF c, of "''science''" "mountEffect storage0 (stocked [''politics''])", unfolded g]
  have k: "calls (toggleTopic storage0 ''science''
        (toggleTopic storage0 ''science'' (mountEffect storage0 (stocked [''politics'']))))
       = [CallGetUserProfile, CallGetSelectedTopicIds,
          CallSaveSelectedTopicIds [''science''], CallSaveSelectedTopicIds [''science'']]"
    using t by (simp add: m(3))
  from t c m(1,2) k show ?thesis by blast
qed

subsection \<open>At most one selected topic\<close>






text \<open>
  A run from the freshly installed application, evaluated: the topic selected last is
  the selection.
\<close>

lemma sample_run_selection:
  "selectedIds (ui (performAll storage0 specNotifications True
        [MountLoad, SelectTopic ''science'', EditCity ''Nitra'', SelectTopic ''politics'',
         EditNotification WEEKLY, ThemeToggle, EditPersona ''expert'', MountLoad]
        (fresh True True))) = [''politics'']"
  by (simp add: mountEffect_def toggleTopic_effect handleCityChange_effect
      handlePersonaChange_effect handleToggleTheme_def handleNotificationChange_def
      notificationGate_def Let_def storage0_def specStorage_simps specNotifications_simps
      fresh_simps initialStore_def initialView_def profile0_def)

section \<open>Profile edits\<close>

text \<open>
  C5. For every store and every city string, the city edit reads the profile and writes
  back that profile with the city replaced: the persona, the theme, the notification
  frequency and every further field of the profile written are those of the profile
  read.
\<close>

theorem city_edit_frame:
  fixes svc :: "('x, 's) storageService" and w :: "('x UserProfile_scheme, 's, 'n) world"
  shows "(let p = getUserProfile svc (storage w); q = p\<lparr>city := Some newCity\<rparr>
      in calls (handleCityChange svc newCity w)
           = calls w @ [CallGetUserProfile, CallSaveUserProfile q]
       \<and> storage (handleCityChange svc newCity w) = saveUserProfile svc q (storage w)
       \<and> city q = Some newCity
       \<and> selectedPersona q = selectedPersona p
       \<and> theme q = theme p
       \<and> notificationFrequency q = notificationFrequency p
       \<and> UserProfile.more q = UserProfile.more p)"
  by (simp add: handleCityChange_effect Let_def)

text \<open>
  C4, as amended. The city edit, and the notification-frequency edit that passes the
  permission gate, follow the read-modify-write pattern: one read of the full profile,
  one write of that profile with the single field replaced. A notification-frequency
  edit that the gate rejects neither reads nor writes the profile. The persona edit does
  not follow the pattern: the handler makes the single call \<open>setPersona(newPersona)\<close>
  and leaves the profile to that routine of the store. On the store of the
  specification the outcome is the one a read-modify-write of the persona would give.
\<close>

theorem profile_edits_pattern:
  fixes svc :: "('x, 's) storageService" and w :: "('x UserProfile_scheme, 's, 'n) world"
    and v :: "('y UserProfile_scheme, 'y Store, 'm) world"
  shows "readModifyWrite svc (\<lambda>p. p\<lparr>city := Some newCity\<rparr>) w (handleCityChange svc newCity w)
    \<and> (fst (notificationGate ns freq w) \<longrightarrow>
          readModifyWrite svc (\<lambda>p. p\<lparr>notificationFrequency := Some freq\<rparr>)
            (snd (notificationGate ns freq w)) (handleNotificationChange svc ns freq w))
    \<and> (\<not> fst (notificationGate ns freq w) \<longrightarrow>
          storage (handleNotificationChange svc ns freq w) = storage w
        \<and> CallGetUserProfile
            \<notin> set (drop (length (calls w)) (calls (handleNotificationChange svc ns freq w)))
        \<and> (\<forall>q. CallSaveUserProfile q
            \<notin> set (drop (length (calls w)) (calls (handleNotificationChange svc ns freq w)))))
    \<and> calls (handlePersonaChange svc newPersona w) = calls w @ [CallSetPersona newPersona]
    \<and> storage (handlePersonaChange svc newPersona w) = setPersona svc newPersona (storage w)
    \<and> currentPersona (ui (handlePersonaChange svc newPersona w)) = newPersona
    \<and> storage (handlePersonaChange (specStorage d ex im) newPersona v)
        = saveUserProfile (specStorage d ex im)
            ((getUserProfile (specStorage d ex im) (storage v))\<lparr>selectedPersona := newPersona\<rparr>)
            (storage v)"
proof (intro conjI impI)
  show "readModifyWrite svc (\<lambda>p. p\<lparr>city := Some newCity\<rparr>) w (handleCityChange svc newCity w)"
    by (simp add: readModifyWrite_def handleCityChange_effect Let_def)
next
  assume "fst (notificationGate ns freq w)"
  from handleNotificationChange_accepted[OF this, of svc]
  show "readModifyWrite svc (\<lambda>p. p\<lparr>notificationFrequency := Some freq\<rparr>)
            (snd (notificationGate ns freq w)) (handleNotificationChange svc ns freq w)"
    by (simp add: readModifyWrite_def Let_def notificationGate_frame(1))
next
  assume n: "\<not> fst (notificationGate ns freq w)"
  note r = handleNotificationChange_rejected[OF n, of svc]
  show "storage (handleNotificationChange svc ns freq w) = storage w"
    by (simp add: r notificationGate_frame(1))
  have c: "set (drop (length (calls w)) (calls (snd (notificationGate ns freq w))))
      \<subseteq> {CallIsNotificationSupported, CallGetNotificationPermission,
          CallRequestNotificationPermission, Alert NotificationsUnsupported,
          Alert NotificationsDisabled}"
    by (simp add: notificationGate_def Let_def split: prod.splits)
  from c show "CallGetUserProfile
      \<notin> set (drop (length (calls w)) (calls (handleNotificationChange svc ns freq w)))"
    unfolding r by blast
  from c show "\<forall>q. CallSaveUserProfile q
      \<notin> set (drop (length (calls w)) (calls (handleNotificationChange svc ns freq w)))"
    unfolding r by blast
next
  show "calls (handlePersonaChange svc newPersona w) = calls w @ [CallSetPersona newPersona]"
    and "storage (handlePersonaChange svc newPersona w) = setPersona svc newPersona (storage w)"
    and "currentPersona (ui (handlePersonaChange svc newPersona w)) = newPersona"
    by (simp_all add: handlePersonaChange_effect)
next
  show "storage (handlePersonaChange (specStorage d ex im) newPersona v)
        = saveUserProfile (specStorage d ex im)
            ((getUserProfile (specStorage d ex im) (storage v))\<lparr>selectedPersona := newPersona\<rparr>)
            (storage v)"
    by (simp add: handlePersonaChange_effect specStorage_simps)
qed

theorem profile_edits_pattern_witness:
  "fst (notificationGate specNotifications WEEKLY (fresh True True))
   \<and> readModifyWrite storage0 (\<lambda>p. p\<lparr>notificationFrequency := Some WEEKLY\<rparr>)
        (snd (notificationGate specNotifications WEEKLY (fresh True True)))
        (handleNotificationChange storage0 specNotifications WEEKLY (fresh True True))
   \<and> \<not> fst (notificationGate specNotifications DAILY (fresh False False))
   \<and> storage (handleNotificationChange storage0 specNotifications DAILY (fresh False False))
       = storage (fresh False False)
   \<and> readModifyWrite storage0 (\<lambda>p. p\<lparr>city := Some ''Nitra''\<rparr>)
        (fresh True True) (handleCityChange storage0 ''Nitra'' (fresh True True))"
proof -
  have g: "fst (notificationGate specNotifications WEEKLY (fresh True True))"
    by (simp add: notificationGate_def Let_def specNotifications_simps fresh_simps)
  have n: "\<not> fst (notificationGate specNotifications DAILY (fresh False False))"
    by (simp add: notificationGate_def Let_def specNotifications_simps fresh_simps)
  from profile_edits_pattern[of storage0 "''Nitra''" "fresh True True" specNotifications WEEKLY]
    profile_edits_pattern[of storage0 "''Nitra''" "fresh False False" specNotifications DAILY]
    g n
  show ?thesis by blast
qed

text \<open>
  C4, as stated, fails for the persona: on the fresh application the persona edit to
  \<open>expert\<close> makes no read and no write of the profile, its one call is \<open>setPersona\<close>.
\<close>

theorem persona_edit_is_not_read_modify_write:
  "\<not> readModifyWrite storage0 (\<lambda>p. p\<lparr>selectedPersona := ''expert''\<rparr>)
        (fresh True True) (handlePersonaChange storage0 ''expert'' (fresh True True))
   \<and> calls (handlePersonaChange storage0 ''expert'' (fresh True True)) = [CallSetPersona ''expert'']"
  by (simp add: readModifyWrite_def handlePersonaChange_effect fresh_simps Let_def)

subsection \<open>The permission gate of the notification frequency\<close>

text \<open>
  C3. For every requested frequency other than \<open>OFF\<close>: where the platform does not
  support notifications, the handler asks for the support only, shows the message, and
  leaves the component's state, the store and the platform as they were. Where
  notifications are supported and the permission is not yet granted, the permission is
  requested; if the request resolves to not granted, the message is shown, the
  component's frequency and the store are unchanged and no profile call is made (the
  component's copy of the permission is refreshed, nothing else); if it resolves to
  granted, the frequency is set and written to the profile.
\<close>

theorem notification_change_requires_permission:
  fixes svc :: "('x, 's) storageService" and w :: "('x UserProfile_scheme, 's, 'n) world"
  assumes "freq \<noteq> OFF"
  shows "(\<not> isNotificationSupported ns (platform w) \<longrightarrow>
            ui (handleNotificationChange svc ns freq w) = ui w
          \<and> storage (handleNotificationChange svc ns freq w) = storage w
          \<and> platform (handleNotificationChange svc ns freq w) = platform w
          \<and> calls (handleNotificationChange svc ns freq w)
              = calls w @ [CallIsNotificationSupported, Alert NotificationsUnsupported])
    \<and> (isNotificationSupported ns (platform w)
          \<and> getNotificationPermission ns (platform w) \<noteq> ''granted''
          \<and> \<not> fst (requestNotificationPermission ns (platform w)) \<longrightarrow>
            notificationFreq (ui (handleNotificationChange svc ns freq w)) = notificationFreq (ui w)
          \<and> ui (handleNotificationChange svc ns freq w)
              = (ui w)\<lparr>notificationPerm :=
                  getNotificationPermission ns (snd (requestNotificationPermission ns (platform w)))\<rparr>
          \<and> storage (handleNotificationChange svc ns freq w) = storage w
          \<and> calls (handleNotificationChange svc ns freq w)
              = calls w @ [CallIsNotificationSupported, CallGetNotificationPermission,
                  CallRequestNotificationPermission, CallGetNotificationPermission,
                  Alert NotificationsDisabled])
    \<and> (isNotificationSupported ns (platform w)
          \<and> getNotificationPermission ns (platform w) \<noteq> ''granted''
          \<and> fst (requestNotificationPermission ns (platform w)) \<longrightarrow>
            notificationFreq (ui (handleNotificationChange svc ns freq w)) = freq
          \<and> storage (handleNotificationChange svc ns freq w)
              = saveUserProfile svc
                  ((getUserProfile svc (storage w))\<lparr>notificationFrequency := Some freq\<rparr>) (storage w)
          \<and> calls (handleNotificationChange svc ns freq w)
              = calls w @ [CallIsNotificationSupported, CallGetNotificationPermission,
                  CallRequestNotificationPermission, CallGetNotificationPermission,
                  CallGetUserProfile,
                  CallSaveUserProfile
                    ((getUserProfile svc (storage w))\<lparr>notificationFrequency := Some freq\<rparr>)])"
proof (intro conjI impI)
  assume u: "\<not> isNotificationSupported ns (platform w)"
  have r: "handleNotificationChange svc ns freq w =
      w\<lparr>calls := calls w @ [CallIsNotificationSupported, Alert NotificationsUnsupported]\<rparr>"
    using handleNotificationChange_rejected[of ns freq w svc]
    by (simp add: notificationGate_unsupported[OF assms u])
  show "ui (handleNotificationChange svc ns freq w) = ui w"
    and "storage (handleNotificationChange svc ns freq w) = storage w"
    and "platform (handleNotificationChange svc ns freq w) = platform w"
    and "calls (handleNotificationChange svc ns freq w)
          = calls w @ [CallIsNotificationSupported, Alert NotificationsUnsupported]"
    by (simp_all add: r)
next
  assume a: "isNotificationSupported ns (platform w)
          \<and> getNotificationPermission ns (platform w) \<noteq> ''granted''
          \<and> \<not> fst (requestNotificationPermission ns (platform w))"
  then have g: "notificationGate ns freq w =
     (False,
      w\<lparr>ui := (ui w)\<lparr>notificationPerm :=
              getNotificationPermission ns (snd (requestNotificationPermission ns (platform w)))\<rparr>,
        platform := snd (requestNotificationPermission ns (platform w)),
        calls := calls w @
          [CallIsNotificationSupported, CallGetNotificationPermission,
           CallRequestNotificationPermission, CallGetNotificationPermission,
           Alert NotificationsDisabled]\<rparr>)"
    using notificationGate_asks[OF assms, of ns w] by simp
  have r: "handleNotificationChange svc ns freq w = snd (notificationGate ns freq w)"
    using handleNotificationChange_rejected[of ns freq w svc] by (simp add: g)
  show "notificationFreq (ui (handleNotificationChange svc ns freq w)) = notificationFreq (ui w)"
    and "ui (handleNotificationChange svc ns freq w)
              = (ui w)\<lparr>notificationPerm :=
                  getNotificationPermission ns (snd (requestNotificationPermission ns (platform w)))\<rparr>"
    and "storage (handleNotificationChange svc ns freq w) = storage w"
    and "calls (handleNotificationChange svc ns freq w)
              = calls w @ [CallIsNotificationSupported, CallGetNotificationPermission,
                  CallRequestNotificationPermission, CallGetNotificationPermission,
                  Alert NotificationsDisabled]"
    by (simp_all add: r g)
next
  assume a: "isNotificationSupported ns (platform w)
          \<and> getNotificationPermission ns (platform w) \<noteq> ''granted''
          \<and> fst (requestNotificationPermission ns (platform w))"
  then have g: "notificationGate ns freq w =
     (True,
      w\<lparr>ui := (ui w)\<lparr>notificationPerm :=
              getNotificationPermission ns (snd (requestNotificationPermission ns (platform w)))\<rparr>,
        platform := snd (requestNotificationPermission ns (platform w)),
        calls := calls w @
          [CallIsNotificationSupported, CallGetNotificationPermission,
           CallRequestNotificationPermission, CallGetNotificationPermission]\<rparr>)"
    using notificationGate_asks[OF assms, of ns w] by simp
  have r: "handleNotificationChange svc ns freq w =
     (snd (notificationGate ns freq w))
       \<lparr>ui := (ui (snd (notificationGate ns freq w)))\<lparr>notificationFreq := freq\<rparr>,
        storage := saveUserProfile svc
           ((getUserProfile svc (storage w))\<lparr>notificationFrequency := Some freq\<rparr>) (storage w),
        calls := calls (snd (notificationGate ns freq w)) @
           [CallGetUserProfile,
            CallSaveUserProfile
              ((getUserProfile svc (storage w))\<lparr>notificationFrequency := Some freq\<rparr>)]\<rparr>"
    using handleNotificationChange_accepted[of ns freq w svc] by (simp add: g)
  show "notificationFreq (ui (handleNotificationChange svc ns freq w)) = freq"
    and "storage (handleNotificationChange svc ns freq w)
              = saveUserProfile svc
                  ((getUserProfile svc (storage w))\<lparr>notificationFrequency := Some freq\<rparr>) (storage w)"
    and "calls (handleNotificationChange svc ns freq w)
              = calls w @ [CallIsNotificationSupported, CallGetNotificationPermission,
                  CallRequestNotificationPermission, CallGetNotificationPermission,
                  CallGetUserProfile,
                  CallSaveUserProfile
                    ((getUserProfile svc (storage w))\<lparr>notificationFrequency := Some freq\<rparr>)]"
    by (simp_all add: r g)
qed

theorem notification_change_requires_permission_witness:
  "DAILY \<noteq> OFF
   \<and> \<not> isNotificationSupported specNotifications (platform (fresh False False))
   \<and> ui (handleNotificationChange storage0 specNotifications DAILY (fresh False False))
       = ui (fresh False False)
   \<and> storage (handleNotificationChange storage0 specNotifications DAILY (fresh False False))
       = storage (fresh False False)
   \<and> calls (handleNotificationChange storage0 specNotifications DAILY (fresh False False))
       = [CallIsNotificationSupported, Alert NotificationsUnsupported]
   \<and> isNotificationSupported specNotifications (platform (fresh True False))
   \<and> getNotificationPermission specNotifications (platform (fresh True False)) \<noteq> ''granted''
   \<and> \<not> fst (requestNotificationPermission specNotifications (platform (fresh True False)))
   \<and> notificationFreq (ui (handleNotificationChange storage0 specNotifications DAILY (fresh True False)))
       = notificationFreq (ui (fresh True False))
   \<and> storage (handleNotificationChange storage0 specNotifications DAILY (fresh True False))
       = storage (fresh True False)
   \<and> calls (handleNotificationChange storage0 specNotifications DAILY (fresh True False))
       = [CallIsNotificationSupported, CallGetNotificationPermission,
          CallRequestNotificationPermission, CallGetNotificationPermission,
          Alert NotificationsDisabled]
   \<and> isNotificationSupported specNotifications (platform (fresh True True))
   \<and> getNotificationPermission specNotifications (platform (fresh True True)) \<noteq> ''granted''
   \<and> fst (requestNotificationPermission specNotifications (platform (fresh True True)))
   \<and> notificationFreq (ui (handleNotificationChange storage0 specNotifications WEEKLY (fresh True True)))
       = WEEKLY
   \<and> notificationFrequency (profile (storage
        (handleNotificationChange storage0 specNotifications WEEKLY (fresh True True)))) = Some WEEKLY"
proof -
  have d: "DAILY \<noteq> OFF" and k: "WEEKLY \<noteq> OFF" by simp_all
  note t1 = notification_change_requires_permission
      [OF d, of specNotifications "fresh False False" storage0]
  note t2 = notification_change_requires_permission
      [OF d, of specNotifications "fresh True False" storage0]
  note t3 = notification_change_requires_permission
      [OF k, of specNotifications "fresh True True" storage0]
  have s: "notificationFrequency (profile (saveUserProfile storage0
        ((getUserProfile storage0 (storage (fresh True True)))\<lparr>notificationFrequency := Some WEEKLY\<rparr>)
        (storage (fresh True True)))) = Some WEEKLY"
    by (simp add: storage0_def specStorage_simps)
  show ?thesis
    using t1 t2 t3 s by (simp add: specNotifications_simps fresh_simps)
qed

text \<open>
  C10. Setting the frequency to \<open>OFF\<close> goes through on every platform, supported or not,
  whatever the permission: the handler sets the frequency and writes it to the profile,
  and the calls it makes are the read and the write of the profile only, none of the
  three calls of the notification service.
\<close>

theorem notification_off_unconditional:
  fixes svc :: "('x, 's) storageService" and w :: "('x UserProfile_scheme, 's, 'n) world"
  shows "ui (handleNotificationChange svc ns OFF w) = (ui w)\<lparr>notificationFreq := OFF\<rparr>
    \<and> notificationFreq (ui (handleNotificationChange svc ns OFF w)) = OFF
    \<and> platform (handleNotificationChange svc ns OFF w) = platform w
    \<and> storage (handleNotificationChange svc ns OFF w)
        = saveUserProfile svc
            ((getUserProfile svc (storage w))\<lparr>notificationFrequency := Some OFF\<rparr>) (storage w)
    \<and> calls (handleNotificationChange svc ns OFF w)
        = calls w @ [CallGetUserProfile,
            CallSaveUserProfile ((getUserProfile svc (storage w))\<lparr>notificationFrequency := Some OFF\<rparr>)]
    \<and> CallIsNotificationSupported
        \<notin> set (drop (length (calls w)) (calls (handleNotificationChange svc ns OFF w)))
    \<and> CallGetNotificationPermission
        \<notin> set (drop (length (calls w)) (calls (handleNotificationChange svc ns OFF w)))
    \<and> CallRequestNotificationPermission
        \<notin> set (drop (length (calls w)) (calls (handleNotificationChange svc ns OFF w)))"
  using handleNotificationChange_accepted[of ns OFF w svc]
  by (simp add: notificationGate_off)

section \<open>Data management\<close>

text \<open>
  C6. The hard reset asks for confirmation first. If the user declines, the handler
  changes nothing and the store's wipe routine is not called: the dialog is the only
  call. If the user confirms, the handler calls \<open>hardResetApp\<close> and the store is that
  routine's result; on the store of the specification this is the initial default
  state, with no selected topic and the default profile, whatever the store held before,
  so that nothing of the former content is left to recover.
\<close>

theorem hard_reset_confirmation:
  fixes svc :: "('x, 's) storageService" and w :: "('x UserProfile_scheme, 's, 'n) world"
    and v v' :: "('y UserProfile_scheme, 'y Store, 'm) world"
  shows "handleHardReset svc False w = w\<lparr>calls := calls w @ [Confirm]\<rparr>
    \<and> storage (handleHardReset svc False w) = storage w
    \<and> ui (handleHardReset svc False w) = ui w
    \<and> CallHardResetApp \<notin> set (drop (length (calls w)) (calls (handleHardReset svc False w)))
    \<and> handleHardReset svc True w =
        w\<lparr>storage := hardResetApp svc (storage w), calls := calls w @ [Confirm, CallHardResetApp]\<rparr>
    \<and> storage (handleHardReset (specStorage d ex im) True v) = initialStore d
    \<and> topicIds (storage (handleHardReset (specStorage d ex im) True v)) = []
    \<and> profile (storage (handleHardReset (specStorage d ex im) True v)) = d
    \<and> storage (handleHardReset (specStorage d ex im) True v)
        = storage (handleHardReset (specStorage d ex im) True v')"
  by (simp add: handleHardReset_effect specStorage_simps initialStore_def)

text \<open>
  C7, as amended. With no file selected, or a first file whose text is empty, the
  handler does nothing. A non-empty text is handed to \<open>importUserData\<close>, unchanged; the
  store is what that routine leaves. When the routine reports success the handler shows
  the message and reloads the application; when it reports failure the handler does
  nothing more: no message, no reload, no change to the component's state.
\<close>

theorem import_outcomes:
  fixes svc :: "('x, 's) storageService" and w :: "('x UserProfile_scheme, 's, 'n) world"
  shows "handleFileChange svc [] w = w
    \<and> handleFileChange svc ([] # rest) w = w
    \<and> (content \<noteq> [] \<longrightarrow>
          ui (handleFileChange svc (content # rest) w) = ui w
        \<and> platform (handleFileChange svc (content # rest) w) = platform w
        \<and> storage (handleFileChange svc (content # rest) w)
            = snd (importUserData svc content (storage w))
        \<and> calls (handleFileChange svc (content # rest) w)
            = calls w @
               (if fst (importUserData svc content (storage w))
                then [CallImportUserData content, Alert DataRestored, Reload]
                else [CallImportUserData content]))"
  by (simp add: handleFileChange_effect)

theorem import_outcomes_witness:
  "''{}'' \<noteq> []
   \<and> calls (handleFileChange storage0 [''{}''] (fresh True True))
       = [CallImportUserData ''{}'', Alert DataRestored, Reload]
   \<and> ''x'' \<noteq> []
   \<and> calls (handleFileChange storage0 [''x''] (fresh True True)) = [CallImportUserData ''x'']
   \<and> ui (handleFileChange storage0 [''x''] (fresh True True)) = ui (fresh True True)
   \<and> storage (handleFileChange storage0 [''x''] (fresh True True)) = storage (fresh True True)"
proof -
  have i: "importUserData storage0 = (\<lambda>c s. (c = ''{}'', s))"
    by (simp add: storage0_def specStorage_simps)
  from import_outcomes[of storage0 "fresh True True" "[]" "''{}''"]
    import_outcomes[of storage0 "fresh True True" "[]" "''x''"]
  show ?thesis by (simp add: i fresh_simps)
qed

text \<open>
  C7, as stated, fails for a file whose text is empty: the file is selected and read, and
  its text is not handed to the import routine; no call is made at all.
\<close>

theorem empty_file_is_not_imported:
  "handleFileChange storage0 [[]] (fresh True True) = fresh True True
   \<and> CallImportUserData [] \<notin> set (calls (handleFileChange storage0 [[]] (fresh True True)))"
  by (simp add: handleFileChange_effect fresh_simps)

subsection \<open>Export, then import\<close>

text \<open>
  What the component adds to a round trip through a backup file: the export hands the
  text of \<open>exportUserData\<close>, unchanged, to the download, and the import hands the text of
  the file, unchanged, to \<open>importUserData\<close>, provided that text is not empty. Whether the
  import of an exported text restores the profile and the selection is decided by those
  two routines of the store.
\<close>

lemma export_then_import_passthrough:
  fixes svc :: "('x, 's) storageService"
    and w w' :: "('x UserProfile_scheme, 's, 'n) world"
  assumes "exportUserData svc (storage w) \<noteq> []"
  shows "last (calls (handleExportData svc isoDate w))
           = Download (''ai_digest_backup_'' @ isoDate @ ''.json'') (exportUserData svc (storage w))"
    and "storage (handleFileChange svc [exportUserData svc (storage w)] w')
           = snd (importUserData svc (exportUserData svc (storage w)) (storage w'))"
  using assms by (simp_all add: handleExportData_effect handleFileChange_effect)

end
